theory Spec2Isabelle
  imports Main "HOL-Library.Sublist"
begin

section \<open>Data model (main.go, lines 17-28)\<close>

text \<open>
  The Go struct \<^verbatim>\<open>User\<close>. \<^verbatim>\<open>ID\<close> is a \<^verbatim>\<open>uint\<close> assigned by the
  database; the identifiers of a table never come near \<open>2^64\<close>, so they are naturals.
  \<^verbatim>\<open>CreatedAt\<close> is a time stamp, kept as seconds.
\<close>

record User =
  ID :: nat
  Email :: string
  Phone :: string
  Password :: string
  CreatedAt :: nat

text \<open>
  A session's payload is the Go map \<^verbatim>\<open>map[string]interface{}\<close>. The program stores
  two kinds of values in it: \<^verbatim>\<open>user.ID\<close> (a \<^verbatim>\<open>uint\<close>) and \<^verbatim>\<open>user.Email\<close> (a
  \<^verbatim>\<open>string\<close>). A missing key reads as \<^verbatim>\<open>nil\<close>, here \<open>None\<close>.
\<close>

datatype any = VUint nat | VString string

type_synonym payload = "string \<rightharpoonup> any"

record Session =
  sid :: string
  sdata :: payload

text \<open>The session storage: token to payload and absolute expiry time (seconds).\<close>

type_synonym storage = "string \<rightharpoonup> (payload \<times> nat)"

text \<open>The two package-level variables \<^verbatim>\<open>db\<close> and \<^verbatim>\<open>store\<close> (lines 25-28).\<close>

record state =
  db :: "User list"
  store :: storage

text \<open>
  What a handler needs of \<^verbatim>\<open>*fiber.Ctx\<close> and of the world at the time of the request:
  the session cookie, the three form values (\<^verbatim>\<open>FormValue\<close> gives the empty string for
  an absent field), the clock, the identifier the session key generator would hand out,
  the salt bcrypt would draw, and whether the database answers the lookup and the
  insert of this request with an error of its own (a store that is unavailable).
  A request to the dashboard reads the session store twice, in the guard (line 88) and
  in the handler (line 178): \<open>now\<close> is the clock at the first read of a request,
  \<open>later\<close> the clock at the handler's read behind the guard.
\<close>

record ctx =
  cookie :: "string option"
  email :: string
  password :: string
  confirm_password :: string
  now :: nat
  later :: nat
  KeyGenerator :: string
  salt :: string
  dbFirstFails :: bool
  dbCreateFails :: bool

text \<open>
  What the client gets back: \<^verbatim>\<open>c.Redirect(location)\<close>, \<^verbatim>\<open>c.SendString(page)\<close>
  (always after \<^verbatim>\<open>c.Type("html")\<close>), or a Go panic; and what happens to the session
  cookie.
\<close>

datatype reply = Redirect string | SendString string | Panic

datatype cookie_effect = NoCookie | SetCookie string | ExpireCookie

record response =
  reply :: reply
  set_cookie :: cookie_effect

text \<open>
  The parts the handlers use and the repository does not define: the two bcrypt
  functions (\<open>None\<close> and \<open>False\<close> stand for a non-nil error), and the text of the three
  page templates before and after their single \<^verbatim>\<open>%s\<close> verb.
\<close>

record env =
  GenerateFromPassword :: "string \<Rightarrow> string \<Rightarrow> string option"
  CompareHashAndPassword :: "string \<Rightarrow> string \<Rightarrow> bool"
  loginTemplate :: "string \<times> string"
  registerTemplate :: "string \<times> string"
  dashboardTemplate :: "string \<times> string"

section \<open>Credential store\<close>

text \<open>
  Modelled from the spec: the relational store behind \<^verbatim>\<open>db\<close> (GORM over SQLite) is a
  library, not code of the repository. The table is the list of its rows in insertion
  order. Section 4.1 of the specification gives the contract: exact-match lookup by
  email, insertion that fails when the email is already present (the unique index of
  line 19), and a row count.
\<close>

datatype db_error = ErrRecordNotFound | ErrUniqueConstraint | ErrOther

text \<open>\<^verbatim>\<open>db.Where("email = ?", email).First(&user).Error\<close>\<close>

definition db_First :: "User list \<Rightarrow> bool \<Rightarrow> string \<Rightarrow> db_error + User" where
  "db_First tbl fails e =
     (if fails then Inl ErrOther
      else case find (\<lambda>u. Email u = e) tbl of
             None \<Rightarrow> Inl ErrRecordNotFound
           | Some u \<Rightarrow> Inr u)"

text \<open>The primary key of the next row: one more than the largest in use.\<close>

definition next_ID :: "User list \<Rightarrow> nat" where
  "next_ID tbl = Suc (foldr max (map ID tbl) 0)"

text \<open>
  \<^verbatim>\<open>db.Create(&user).Error\<close>: the row gets its primary key and its creation time, and
  the caller's struct is updated with them.
\<close>

definition db_Create :: "User list \<Rightarrow> bool \<Rightarrow> nat \<Rightarrow> User \<Rightarrow> db_error + (User \<times> User list)" where
  "db_Create tbl fails t u =
     (if fails then Inl ErrOther
      else if Email u \<in> set (map Email tbl) then Inl ErrUniqueConstraint
      else (let u' = u\<lparr>ID := next_ID tbl, CreatedAt := t\<rparr> in Inr (u', tbl @ [u'])))"

text \<open>\<^verbatim>\<open>db.Model(&User{}).Count(&count)\<close>: on an error \<^verbatim>\<open>count\<close> keeps its zero value.\<close>

definition db_Count :: "User list \<Rightarrow> bool \<Rightarrow> nat" where
  "db_Count tbl fails = (if fails then 0 else length tbl)"

section \<open>Session store\<close>

text \<open>
  Modelled from the spec: the session middleware behind \<^verbatim>\<open>store\<close> and its in-memory
  storage are a library, not code of the repository. Section 4.3 of the specification
  gives the contract: a session is found by the token of the cookie; a lookup after the
  expiry behaves as a lookup of an unknown token; destroying an unknown token is not an
  error. Line 35 configures the expiration, 24 hours.
\<close>

definition Expiration :: nat where
  "Expiration = 24 * 3600"

definition storage_Get :: "storage \<Rightarrow> nat \<Rightarrow> string \<Rightarrow> payload option" where
  "storage_Get stg t k =
     (if k = [] then None
      else case stg k of
             None \<Rightarrow> None
           | Some (d, expiry) \<Rightarrow> if expiry \<noteq> 0 \<and> expiry \<le> t then None else Some d)"

definition storage_Set :: "storage \<Rightarrow> nat \<Rightarrow> string \<Rightarrow> payload \<Rightarrow> storage" where
  "storage_Set stg t k d = (if k = [] then stg else stg(k \<mapsto> (d, t + Expiration)))"

definition storage_Delete :: "storage \<Rightarrow> string \<Rightarrow> storage" where
  "storage_Delete stg k = (if k = [] then stg else stg(k := None))"

text \<open>
  \<^verbatim>\<open>store.Get(c)\<close>: the session of the request's cookie. Without a cookie, and with
  a token that the storage does not hold (unknown or expired), the session is new: it
  has an empty payload and a token of its own from the key generator, never the one the
  client sent. The in-memory storage never returns an error, so the \<^verbatim>\<open>err\<close> of
  \<^verbatim>\<open>store.Get\<close> is always nil.
\<close>

definition store_Get :: "storage \<Rightarrow> ctx \<Rightarrow> Session" where
  "store_Get stg c =
     (let k = (case cookie c of None \<Rightarrow> [] | Some v \<Rightarrow> v) in
      if k = [] then \<lparr>sid = KeyGenerator c, sdata = Map.empty\<rparr>
      else case storage_Get stg (now c) k of
             None \<Rightarrow> \<lparr>sid = KeyGenerator c, sdata = Map.empty\<rparr>
           | Some d \<Rightarrow> \<lparr>sid = k, sdata = d\<rparr>)"

text \<open>\<^verbatim>\<open>sess.Get(key)\<close>, \<^verbatim>\<open>sess.Set(key, v)\<close>, \<^verbatim>\<open>sess.Save()\<close>, \<^verbatim>\<open>sess.Destroy()\<close>\<close>

definition sess_Get :: "Session \<Rightarrow> string \<Rightarrow> any option" where
  "sess_Get s k = sdata s k"

definition sess_Set :: "Session \<Rightarrow> string \<Rightarrow> any \<Rightarrow> Session" where
  "sess_Set s k v = s\<lparr>sdata := (sdata s)(k \<mapsto> v)\<rparr>"

definition sess_Save :: "storage \<Rightarrow> ctx \<Rightarrow> Session \<Rightarrow> storage" where
  "sess_Save stg c s = storage_Set stg (now c) (sid s) (sdata s)"

definition sess_Destroy :: "storage \<Rightarrow> Session \<Rightarrow> storage" where
  "sess_Destroy stg s = storage_Delete stg (sid s)"

section \<open>Pages (main.go, lines 190-1157)\<close>

text \<open>
  \<^verbatim>\<open>renderLoginPage\<close> and \<^verbatim>\<open>renderRegisterPage\<close> wrap a non-empty message in the
  same \<^verbatim>\<open>div\<close> (lines 191-194 and 617-620) and put it where the template has its
  \<^verbatim>\<open>%s\<close>; \<^verbatim>\<open>renderDashboard\<close> puts the email there (line 1137).
\<close>

definition errorDiv :: "string \<Rightarrow> string" where
  \<open>errorDiv errorMsg =
     ''<div class="error-shake bg-red-500/20 border border-red-500/50 text-red-200 px-4 py-3 rounded-xl mb-6 backdrop-blur-sm">''
       @ errorMsg @ ''</div>''\<close>

definition renderLoginPage :: "env \<Rightarrow> string \<Rightarrow> string" where
  "renderLoginPage e errorMsg =
     (let errorHTML = (if errorMsg \<noteq> [] then errorDiv errorMsg else []) in
      fst (loginTemplate e) @ errorHTML @ snd (loginTemplate e))"

definition renderRegisterPage :: "env \<Rightarrow> string \<Rightarrow> string" where
  "renderRegisterPage e errorMsg =
     (let errorHTML = (if errorMsg \<noteq> [] then errorDiv errorMsg else []) in
      fst (registerTemplate e) @ errorHTML @ snd (registerTemplate e))"

definition renderDashboard :: "env \<Rightarrow> string \<Rightarrow> string" where
  "renderDashboard e em = fst (dashboardTemplate e) @ em @ snd (dashboardTemplate e)"

definition page :: "string \<Rightarrow> response" where
  "page html = \<lparr>reply = SendString html, set_cookie = NoCookie\<rparr>"

definition redirect :: "string \<Rightarrow> response" where
  "redirect loc = \<lparr>reply = Redirect loc, set_cookie = NoCookie\<rparr>"

section \<open>Bootstrap (main.go, lines 73-85)\<close>

text \<open>
  \<^verbatim>\<open>seedDemoUser\<close>. The errors of \<^verbatim>\<open>Count\<close>, of \<^verbatim>\<open>GenerateFromPassword\<close> and of
  \<^verbatim>\<open>Create\<close> are all dropped by the code: a failed hash leaves the empty string, a
  failed insert leaves the table as it was.
\<close>

definition demoUser :: "string \<Rightarrow> User" where
  "demoUser hash =
     \<lparr>ID = 0, Email = ''demo@glassauth.io'', Phone = ''+1 (555) 987-6543'',
      Password = hash, CreatedAt = 0\<rparr>"

definition seedDemoUser :: "env \<Rightarrow> string \<Rightarrow> nat \<Rightarrow> bool \<Rightarrow> bool \<Rightarrow> User list \<Rightarrow> User list" where
  "seedDemoUser e slt t countFails createFails tbl =
     (let count = db_Count tbl countFails in
      if count = 0 then
        (let hash = (case GenerateFromPassword e slt ''demo2024'' of None \<Rightarrow> [] | Some h \<Rightarrow> h) in
         case db_Create tbl createFails t (demoUser hash) of
           Inl err \<Rightarrow> tbl
         | Inr (u, tbl') \<Rightarrow> tbl')
      else tbl)"

section \<open>Handlers (main.go, lines 87-188)\<close>

text \<open>\<^verbatim>\<open>authRequired\<close>: \<open>None\<close> is \<^verbatim>\<open>c.Next()\<close>, the request goes on to the handler.\<close>

definition authRequired :: "state \<Rightarrow> ctx \<Rightarrow> response option" where
  "authRequired st c =
     (let sess = store_Get (store st) c in
      if sess_Get sess ''userID'' = None then Some (redirect ''/login'') else None)"

definition handleIndex :: "state \<Rightarrow> ctx \<Rightarrow> response \<times> state" where
  "handleIndex st c = (redirect ''/login'', st)"

definition handleLoginPage :: "env \<Rightarrow> state \<Rightarrow> ctx \<Rightarrow> response \<times> state" where
  "handleLoginPage e st c = (page (renderLoginPage e []), st)"

text \<open>
  The tail of \<^verbatim>\<open>handleLogin\<close> and of \<^verbatim>\<open>handleRegister\<close> (lines 119-124 and 169-174):
  the session of the request gets the two keys and is saved, which also sets the cookie.
\<close>

definition establish :: "state \<Rightarrow> ctx \<Rightarrow> User \<Rightarrow> response \<times> state" where
  "establish st c user =
     (let sess = store_Get (store st) c;
          sess = sess_Set sess ''userID'' (VUint (ID user));
          sess = sess_Set sess ''userEmail'' (VString (Email user))
      in (\<lparr>reply = Redirect ''/dashboard'', set_cookie = SetCookie (sid sess)\<rparr>,
          st\<lparr>store := sess_Save (store st) c sess\<rparr>))"

definition handleLogin :: "env \<Rightarrow> state \<Rightarrow> ctx \<Rightarrow> response \<times> state" where
  "handleLogin e st c =
     (case db_First (db st) (dbFirstFails c) (email c) of
        Inl err \<Rightarrow> (page (renderLoginPage e ''Invalid credentials''), st)
      | Inr user \<Rightarrow>
          if \<not> CompareHashAndPassword e (Password user) (password c)
          then (page (renderLoginPage e ''Invalid credentials''), st)
          else establish st c user)"

definition handleRegisterPage :: "env \<Rightarrow> state \<Rightarrow> ctx \<Rightarrow> response \<times> state" where
  "handleRegisterPage e st c = (page (renderRegisterPage e []), st)"

text \<open>
  \<^verbatim>\<open>handleRegister\<close> makes two calls to the store, the lookup of line 148 and the
  insert of line 164, and holds no lock between them. The model has the two halves as
  functions of their own: \<open>registerChecks\<close> is lines 133-151 (\<open>None\<close>: no early
  return), \<open>registerWrite\<close> is lines 153-174.
\<close>

definition registerChecks :: "env \<Rightarrow> state \<Rightarrow> ctx \<Rightarrow> response option" where
  "registerChecks e st c =
     (if password c \<noteq> confirm_password c
      then Some (page (renderRegisterPage e ''Passwords do not match''))
      else if length (password c) < 6
      then Some (page (renderRegisterPage e ''Password must be at least 6 characters''))
      else case db_First (db st) (dbFirstFails c) (email c) of
             Inr existing \<Rightarrow> Some (page (renderRegisterPage e ''Email already registered''))
           | Inl err \<Rightarrow> None)"

definition registerWrite :: "env \<Rightarrow> state \<Rightarrow> ctx \<Rightarrow> response \<times> state" where
  "registerWrite e st c =
     (case GenerateFromPassword e (salt c) (password c) of
        None \<Rightarrow> (page (renderRegisterPage e ''Registration failed''), st)
      | Some hash \<Rightarrow>
          (case db_Create (db st) (dbCreateFails c) (now c)
                  \<lparr>ID = 0, Email = email c, Phone = [], Password = hash, CreatedAt = 0\<rparr> of
             Inl err \<Rightarrow> (page (renderRegisterPage e ''Registration failed''), st)
           | Inr (user, tbl') \<Rightarrow> establish (st\<lparr>db := tbl'\<rparr>) c user))"

definition handleRegister :: "env \<Rightarrow> state \<Rightarrow> ctx \<Rightarrow> response \<times> state" where
  "handleRegister e st c =
     (case registerChecks e st c of
        Some r \<Rightarrow> (r, st)
      | None \<Rightarrow> registerWrite e st c)"

text \<open>
  \<^verbatim>\<open>handleDashboard\<close>: the type assertion \<^verbatim>\<open>sess.Get("userEmail").(string)\<close> panics
  on \<^verbatim>\<open>nil\<close> and on a value that is not a string.
\<close>

definition handleDashboard :: "env \<Rightarrow> state \<Rightarrow> ctx \<Rightarrow> response \<times> state" where
  "handleDashboard e st c =
     (let sess = store_Get (store st) c in
      case sess_Get sess ''userEmail'' of
        Some (VString em) \<Rightarrow> (page (renderDashboard e em), st)
      | Some (VUint n) \<Rightarrow> (\<lparr>reply = Panic, set_cookie = NoCookie\<rparr>, st)
      | None \<Rightarrow> (\<lparr>reply = Panic, set_cookie = NoCookie\<rparr>, st))"

definition handleLogout :: "state \<Rightarrow> ctx \<Rightarrow> response \<times> state" where
  "handleLogout st c =
     (let sess = store_Get (store st) c in
      (\<lparr>reply = Redirect ''/login'', set_cookie = ExpireCookie\<rparr>,
       st\<lparr>store := sess_Destroy (store st) sess\<rparr>))"

section \<open>Routes and runs (main.go, lines 30-52)\<close>

datatype route =
  GET_root | GET_login | POST_login | GET_register | POST_register | GET_dashboard | POST_logout

text \<open>
  Line 51: the dashboard is behind the guard. The guard and the handler each call
  \<^verbatim>\<open>store.Get\<close>, and nothing holds the store or the clock still between the two
  calls: \<open>st\<close> and \<open>now c\<close> are the state and the clock at the guard's read, \<open>st'\<close>
  and \<open>later c\<close> those at the handler's read.
\<close>

definition dashboardRoute :: "env \<Rightarrow> state \<Rightarrow> state \<Rightarrow> ctx \<Rightarrow> response \<times> state" where
  "dashboardRoute e st st' c =
     (case authRequired st c of
        Some r \<Rightarrow> (r, st)
      | None \<Rightarrow> handleDashboard e st' (c\<lparr>now := later c\<rparr>))"

fun dispatch :: "env \<Rightarrow> state \<Rightarrow> route \<times> ctx \<Rightarrow> response \<times> state" where
  "dispatch e st (GET_root, c) = handleIndex st c"
| "dispatch e st (GET_login, c) = handleLoginPage e st c"
| "dispatch e st (POST_login, c) = handleLogin e st c"
| "dispatch e st (GET_register, c) = handleRegisterPage e st c"
| "dispatch e st (POST_register, c) = handleRegister e st c"
| "dispatch e st (GET_dashboard, c) = dashboardRoute e st st c"
| "dispatch e st (POST_logout, c) = handleLogout st c"

text \<open>
  The state after a sequence of requests, served one after the other: no other request
  changes the state between the guard and the handler, the clock may still advance.
\<close>

fun run :: "env \<Rightarrow> state \<Rightarrow> (route \<times> ctx) list \<Rightarrow> state" where
  "run e st [] = st"
| "run e st (rq # rqs) = run e (snd (dispatch e st rq)) rqs"

text \<open>
  The state in which \<^verbatim>\<open>main\<close> starts to listen: the table of \<^verbatim>\<open>auth.db\<close> after
  \<^verbatim>\<open>seedDemoUser\<close>, and a new, empty session store (line 34).
\<close>

definition boot :: "env \<Rightarrow> string \<Rightarrow> nat \<Rightarrow> bool \<Rightarrow> bool \<Rightarrow> User list \<Rightarrow> state" where
  "boot e slt t countFails createFails tbl =
     \<lparr>db = seedDemoUser e slt t countFails createFails tbl, store = Map.empty\<rparr>"

section \<open>Well-formed session stores\<close>

text \<open>
  The payload the program writes: \<^verbatim>\<open>userID\<close> holds an unsigned integer and
  \<^verbatim>\<open>userEmail\<close> holds a string. A store is well formed when every session it holds
  has such a payload and an expiry time, and nothing is stored under the empty token.
\<close>

definition typed_payload :: "payload \<Rightarrow> bool" where
  "typed_payload d =
     (case d ''userID'' of
        Some (VUint n) \<Rightarrow> (case d ''userEmail'' of Some (VString em) \<Rightarrow> True | _ \<Rightarrow> False)
      | _ \<Rightarrow> False)"

definition store_inv :: "storage \<Rightarrow> bool" where
  "store_inv stg \<longleftrightarrow> stg [] = None \<and> (\<forall>k d ex. stg k = Some (d, ex) \<longrightarrow> typed_payload d \<and> 0 < ex)"

section \<open>Concrete instances\<close>

text \<open>
  A small environment on which the handlers can be evaluated: a stand-in for bcrypt
  that keeps the salt in front of the password (and verifies against the salt \<open>s\<close>)
  and, as bcrypt does, refuses a password of more than 72 bytes; short page templates;
  a request built from its form values; a table with one user, and the state after
  that user has logged in at time 5.
\<close>

definition test_env :: env where
  "test_env =
     \<lparr>GenerateFromPassword = (\<lambda>s p. if 72 < length p then None else Some (s @ ''$'' @ p)),
      CompareHashAndPassword = (\<lambda>h p. h = ''s$'' @ p),
      loginTemplate = (''<login>'', ''</login>''),
      registerTemplate = (''<register>'', ''</register>''),
      dashboardTemplate = (''<dashboard>'', ''</dashboard>'')\<rparr>"

definition form :: "string option \<Rightarrow> string \<Rightarrow> string \<Rightarrow> string \<Rightarrow> nat \<Rightarrow> ctx" where
  "form ck em pw cpw t =
     \<lparr>cookie = ck, email = em, password = pw, confirm_password = cpw, now = t, later = t,
      KeyGenerator = ''k'' @ em, salt = ''s'', dbFirstFails = False, dbCreateFails = False\<rparr>"

definition alice :: User where
  "alice = \<lparr>ID = 1, Email = ''a@b.com'', Phone = [], Password = ''s$secret6'', CreatedAt = 0\<rparr>"

definition st_alice :: state where
  "st_alice = \<lparr>db = [alice], store = Map.empty\<rparr>"

definition st_login :: state where
  "st_login = snd (handleLogin test_env st_alice (form None ''a@b.com'' ''secret6'' [] 5))"

text \<open>
  The number of characters of a UTF-8 string: every character has one byte that is not
  a continuation byte (a byte from 128 to 191). Go's \<^verbatim>\<open>len\<close> counts all bytes.
\<close>

definition continuation_byte :: "char \<Rightarrow> bool" where
  "continuation_byte b \<longleftrightarrow> 128 \<le> (of_char b :: nat) \<and> (of_char b :: nat) < 192"

definition utf8_chars :: "string \<Rightarrow> nat" where
  "utf8_chars s = length (filter (\<lambda>b. \<not> continuation_byte b) s)"

section \<open>Pages and lookups\<close>

lemmas fixture_defs = test_env_def form_def alice_def st_alice_def st_login_def

lemmas handler_defs =
  handleLogin_def handleRegister_def registerChecks_def registerWrite_def establish_def
  handleDashboard_def handleLogout_def authRequired_def dashboardRoute_def
  store_Get_def storage_Get_def storage_Set_def storage_Delete_def
  sess_Get_def sess_Set_def sess_Save_def sess_Destroy_def
  db_First_def db_Create_def db_Count_def next_ID_def page_def redirect_def Expiration_def Let_def

lemma page_inject: "page a = page b \<longleftrightarrow> a = b"
  by (simp add: page_def)

lemma errorDiv_inject: "errorDiv a = errorDiv b \<longleftrightarrow> a = b"
  by (simp add: errorDiv_def)

lemma errorDiv_nonempty: "errorDiv a \<noteq> []"
  by (simp add: errorDiv_def)

lemma renderRegisterPage_inject: "renderRegisterPage e a = renderRegisterPage e b \<longleftrightarrow> a = b"
  using errorDiv_nonempty[of a] errorDiv_nonempty[of b]
  by (auto simp: renderRegisterPage_def errorDiv_inject)

lemma find_Email_None:
  "find (\<lambda>u. Email u = em) tbl = None \<longleftrightarrow> em \<notin> set (map Email tbl)"
  by (induction tbl) auto

lemma db_First_unknown:
  "em \<notin> set (map Email tbl) \<Longrightarrow>
   db_First tbl f em = Inl (if f then ErrOther else ErrRecordNotFound)"
  using find_Email_None[of em tbl] by (simp add: db_First_def)

section \<open>Login\<close>

text \<open>
  Claim C1. A login whose email matches no stored user and a login whose email matches
  a stored user but whose password fails the hash verification get the same response:
  the login page with the message "Invalid credentials", no cookie, and the state is
  left as it was. (The response is what is compared; the time a request takes is not
  part of the model.)
\<close>

theorem login_failures_indistinguishable:
  assumes "email c1 \<notin> set (map Email (db st1))"
    and "find (\<lambda>u. Email u = email c2) (db st2) = Some u"
    and "\<not> CompareHashAndPassword e (Password u) (password c2)"
  shows "handleLogin e st1 c1 = (page (renderLoginPage e ''Invalid credentials''), st1)
       \<and> handleLogin e st2 c2 = (page (renderLoginPage e ''Invalid credentials''), st2)
       \<and> fst (handleLogin e st1 c1) = fst (handleLogin e st2 c2)"
proof -
  have "find (\<lambda>u. Email u = email c1) (db st1) = None"
    using assms(1) by (rule find_Email_None[THEN iffD2])
  then have a: "handleLogin e st1 c1 = (page (renderLoginPage e ''Invalid credentials''), st1)"
    by (simp add: handleLogin_def db_First_def)
  have b: "handleLogin e st2 c2 = (page (renderLoginPage e ''Invalid credentials''), st2)"
    using assms(2,3) by (simp add: handleLogin_def db_First_def)
  show ?thesis by (simp add: a b)
qed

theorem login_failures_indistinguishable_witness:
  "handleLogin test_env st_alice (form None ''nobody@b.com'' ''secret6'' [] 5)
     = (page (renderLoginPage test_env ''Invalid credentials''), st_alice)
   \<and> handleLogin test_env st_alice (form None ''a@b.com'' ''wrong'' [] 5)
     = (page (renderLoginPage test_env ''Invalid credentials''), st_alice)
   \<and> fst (handleLogin test_env st_alice (form None ''nobody@b.com'' ''secret6'' [] 5))
     = fst (handleLogin test_env st_alice (form None ''a@b.com'' ''wrong'' [] 5))"
  by (rule login_failures_indistinguishable[where u = alice]; simp add: fixture_defs)

section \<open>Registration: the checks\<close>

text \<open>
  Claim C5. A registration whose password differs from its confirmation gets the
  register page with the message "Passwords do not match"; the state after it is the
  state before it (no user is stored, no session is created) and no cookie is set.
\<close>

theorem register_mismatch_no_write:
  assumes "password c \<noteq> confirm_password c"
  shows "handleRegister e st c = (page (renderRegisterPage e ''Passwords do not match''), st)"
  using assms by (simp add: handleRegister_def registerChecks_def)

theorem register_mismatch_no_write_witness:
  "handleRegister test_env st_alice (form None ''c@d.org'' ''secret6'' ''secret7'' 10)
     = (page (renderRegisterPage test_env ''Passwords do not match''), st_alice)"
  by (rule register_mismatch_no_write; simp add: fixture_defs)

lemma registerWrite_not_page:
  "m \<noteq> ''Registration failed'' \<Longrightarrow> fst (registerWrite e st c) \<noteq> page (renderRegisterPage e m)"
  by (auto simp: registerWrite_def page_def renderRegisterPage_inject establish_def Let_def
           split: option.splits sum.splits prod.splits)

text \<open>
  With a matching confirmation, the response is the register page with the message
  "Password must be at least 6 characters" exactly when Go's \<^verbatim>\<open>len\<close> of the password,
  the number of its bytes, is less than 6.
\<close>

lemma register_length_bytes:
  assumes "password c = confirm_password c"
  shows "fst (handleRegister e st c)
           = page (renderRegisterPage e ''Password must be at least 6 characters'')
         \<longleftrightarrow> length (password c) < 6"
  using assms registerWrite_not_page[of "''Password must be at least 6 characters''" e st c]
  by (auto simp: handleRegister_def registerChecks_def page_inject renderRegisterPage_inject
           split: sum.splits)

text \<open>
  Claim C6. The check of line 142 counts bytes, the message of line 144 and the claim
  speak of characters. The password of five times the letter e with an acute accent has
  5 characters and 10 bytes: with a matching confirmation it is not answered with
  "Password must be at least 6 characters", it passes the checks and the user is
  registered. Three such letters (3 characters, 6 bytes) pass as well. A password of 5
  ASCII characters is refused and one of 6 passes.
\<close>

theorem register_length_counts_bytes:
  "utf8_chars [CHR 0xC3, CHR 0xA9, CHR 0xC3, CHR 0xA9, CHR 0xC3, CHR 0xA9, CHR 0xC3, CHR 0xA9,
               CHR 0xC3, CHR 0xA9] = 5
   \<and> registerChecks test_env st_alice
         (form None ''c@d.org''
            [CHR 0xC3, CHR 0xA9, CHR 0xC3, CHR 0xA9, CHR 0xC3, CHR 0xA9, CHR 0xC3, CHR 0xA9,
             CHR 0xC3, CHR 0xA9]
            [CHR 0xC3, CHR 0xA9, CHR 0xC3, CHR 0xA9, CHR 0xC3, CHR 0xA9, CHR 0xC3, CHR 0xA9,
             CHR 0xC3, CHR 0xA9] 10) = None
   \<and> reply (fst (handleRegister test_env st_alice
         (form None ''c@d.org''
            [CHR 0xC3, CHR 0xA9, CHR 0xC3, CHR 0xA9, CHR 0xC3, CHR 0xA9, CHR 0xC3, CHR 0xA9,
             CHR 0xC3, CHR 0xA9]
            [CHR 0xC3, CHR 0xA9, CHR 0xC3, CHR 0xA9, CHR 0xC3, CHR 0xA9, CHR 0xC3, CHR 0xA9,
             CHR 0xC3, CHR 0xA9] 10))) = Redirect ''/dashboard''
   \<and> utf8_chars [CHR 0xC3, CHR 0xA9, CHR 0xC3, CHR 0xA9, CHR 0xC3, CHR 0xA9] = 3
   \<and> reply (fst (handleRegister test_env st_alice
         (form None ''c@d.org''
            [CHR 0xC3, CHR 0xA9, CHR 0xC3, CHR 0xA9, CHR 0xC3, CHR 0xA9]
            [CHR 0xC3, CHR 0xA9, CHR 0xC3, CHR 0xA9, CHR 0xC3, CHR 0xA9] 10))) = Redirect ''/dashboard''
   \<and> utf8_chars ''abcde'' = 5
   \<and> fst (handleRegister test_env st_alice (form None ''c@d.org'' ''abcde'' ''abcde'' 10))
       = page (renderRegisterPage test_env ''Password must be at least 6 characters'')
   \<and> utf8_chars ''abcdef'' = 6
   \<and> reply (fst (handleRegister test_env st_alice (form None ''c@d.org'' ''abcdef'' ''abcdef'' 10)))
       = Redirect ''/dashboard''"
  by (simp add: fixture_defs handler_defs utf8_chars_def continuation_byte_def)

section \<open>Sessions\<close>

lemma sid_store_Get:
  "sid (store_Get stg c) =
     (case cookie c of
        None \<Rightarrow> KeyGenerator c
      | Some v \<Rightarrow> if v = [] \<or> storage_Get stg (now c) v = None then KeyGenerator c else v)"
  by (auto simp: store_Get_def Let_def split: option.splits)

lemma KeyGenerator_sid: "KeyGenerator c \<noteq> [] \<Longrightarrow> sid (store_Get stg c) \<noteq> []"
  by (simp add: sid_store_Get split: option.splits)


lemma storage_Get_Set:
  "k \<noteq> [] \<Longrightarrow> t' < t + Expiration \<Longrightarrow> storage_Get (storage_Set stg t k d) t' k = Some d"
  by (simp add: storage_Get_def storage_Set_def)

lemma establish_fst:
  "fst (establish st c u) =
     \<lparr>reply = Redirect ''/dashboard'', set_cookie = SetCookie (sid (store_Get (store st) c))\<rparr>"
  by (simp add: establish_def Let_def sess_Set_def)

lemma establish_db: "db (snd (establish st c u)) = db st"
  by (simp add: establish_def Let_def)

lemma establish_store:
  "store (snd (establish st c u)) =
     storage_Set (store st) (now c) (sid (store_Get (store st) c))
       ((sdata (store_Get (store st) c))(''userID'' \<mapsto> VUint (ID u), ''userEmail'' \<mapsto> VString (Email u)))"
  by (simp add: establish_def Let_def sess_Set_def sess_Save_def)

lemma established_session:
  assumes "KeyGenerator c \<noteq> []"
    and "cookie c' = Some (sid (store_Get (store st) c))"
    and "now c' < now c + Expiration"
  shows "sess_Get (store_Get (store (snd (establish st c u))) c') ''userID'' = Some (VUint (ID u))
       \<and> sess_Get (store_Get (store (snd (establish st c u))) c') ''userEmail'' = Some (VString (Email u))"
proof -
  let ?k = "sid (store_Get (store st) c)"
  have k: "?k \<noteq> []" using assms(1) by (rule KeyGenerator_sid)
  have "storage_Get (store (snd (establish st c u))) (now c') ?k
          = Some ((sdata (store_Get (store st) c))(''userID'' \<mapsto> VUint (ID u), ''userEmail'' \<mapsto> VString (Email u)))"
    using k assms(3) by (simp add: establish_store storage_Get_Set)
  then show ?thesis
    using k assms(2) by (simp add: store_Get_def sess_Get_def)
qed

section \<open>Registration: the write\<close>

lemma db_Create_fresh:
  "Email u \<notin> set (map Email tbl) \<Longrightarrow>
   db_Create tbl False t u =
     Inr (u\<lparr>ID := next_ID tbl, CreatedAt := t\<rparr>, tbl @ [u\<lparr>ID := next_ID tbl, CreatedAt := t\<rparr>])"
  by (simp add: db_Create_def Let_def)

lemma registerChecks_pass:
  "password c = confirm_password c \<Longrightarrow> 6 \<le> length (password c) \<Longrightarrow>
   email c \<notin> set (map Email (db st)) \<Longrightarrow> registerChecks e st c = None"
  by (simp add: registerChecks_def db_First_unknown)

lemma registerWrite_fresh:
  assumes "GenerateFromPassword e (salt c) (password c) = Some h"
    and "\<not> dbCreateFails c"
    and "email c \<notin> set (map Email (db st))"
  shows "registerWrite e st c =
           establish (st\<lparr>db := db st @ [\<lparr>ID = next_ID (db st), Email = email c, Phone = [],
                                          Password = h, CreatedAt = now c\<rparr>]\<rparr>) c
             \<lparr>ID = next_ID (db st), Email = email c, Phone = [], Password = h, CreatedAt = now c\<rparr>"
  using assms by (simp add: registerWrite_def db_Create_fresh)

lemma handleRegister_valid:
  assumes "password c = confirm_password c"
    and "6 \<le> length (password c)"
    and "email c \<notin> set (map Email (db st))"
    and "GenerateFromPassword e (salt c) (password c) = Some h"
    and "\<not> dbCreateFails c"
  shows "handleRegister e st c =
           establish (st\<lparr>db := db st @ [\<lparr>ID = next_ID (db st), Email = email c, Phone = [],
                                          Password = h, CreatedAt = now c\<rparr>]\<rparr>) c
             \<lparr>ID = next_ID (db st), Email = email c, Phone = [], Password = h, CreatedAt = now c\<rparr>"
  using assms by (simp add: handleRegister_def registerChecks_pass registerWrite_fresh)

lemma foldr_max_ge: "x \<in> set xs \<Longrightarrow> x \<le> foldr max xs (0::nat)"
  by (induction xs) auto

lemma next_ID_fresh: "next_ID tbl \<notin> set (map ID tbl)"
  using foldr_max_ge[of "next_ID tbl" "map ID tbl"] by (auto simp: next_ID_def)

lemma register_once:
  assumes "password c = confirm_password c"
    and "6 \<le> length (password c)"
    and "email c \<notin> set (map Email (db st))"
    and "GenerateFromPassword e (salt c) (password c) = Some h"
    and "\<not> dbCreateFails c"
  shows "fst (handleRegister e st c) =
           \<lparr>reply = Redirect ''/dashboard'', set_cookie = SetCookie (sid (store_Get (store st) c))\<rparr>
       \<and> db (snd (handleRegister e st c)) =
           db st @ [\<lparr>ID = next_ID (db st), Email = email c, Phone = [], Password = h,
                     CreatedAt = now c\<rparr>]
       \<and> (KeyGenerator c \<noteq> [] \<longrightarrow>
           (\<forall>c'. cookie c' = Some (sid (store_Get (store st) c)) \<and> now c' < now c + Expiration \<longrightarrow>
              sess_Get (store_Get (store (snd (handleRegister e st c))) c') ''userID''
                = Some (VUint (next_ID (db st)))
            \<and> sess_Get (store_Get (store (snd (handleRegister e st c))) c') ''userEmail''
                = Some (VString (email c))))"
proof -
  let ?u = "\<lparr>ID = next_ID (db st), Email = email c, Phone = [], Password = h, CreatedAt = now c\<rparr>"
  let ?st = "st\<lparr>db := db st @ [?u]\<rparr>"
  have eq: "handleRegister e st c = establish ?st c ?u"
    using assms by (rule handleRegister_valid)
  have a: "fst (handleRegister e st c) =
           \<lparr>reply = Redirect ''/dashboard'', set_cookie = SetCookie (sid (store_Get (store st) c))\<rparr>"
    by (simp add: eq establish_fst)
  have b: "db (snd (handleRegister e st c)) = db st @ [?u]"
    by (simp add: eq establish_db)
  have c: "sess_Get (store_Get (store (snd (handleRegister e st c))) c') ''userID''
                = Some (VUint (next_ID (db st)))
            \<and> sess_Get (store_Get (store (snd (handleRegister e st c))) c') ''userEmail''
                = Some (VString (email c))"
    if "KeyGenerator c \<noteq> []" "cookie c' = Some (sid (store_Get (store st) c))"
       "now c' < now c + Expiration" for c'
    using established_session[of c c' ?st ?u] that by (simp add: eq)
  show ?thesis using a b c by blast
qed


text \<open>
  Claim C2. Two registrations with the same email, each with a matching confirmation
  and a password of at least 6 bytes, the email not stored before, the store answering,
  and bcrypt returning a hash for the first password (it refuses a password of more than
  72 bytes): the first is answered with the redirect to /dashboard and the session
  cookie, the user is stored and (the token not being empty) the session is saved with
  the user's identifier and email; the second is answered with the register page and the
  message "Email already registered" and changes nothing; and the table has exactly one
  row more after the two than before.
\<close>

theorem register_twice_same_email:
  assumes "password c1 = confirm_password c1" and "6 \<le> length (password c1)"
    and "password c2 = confirm_password c2" and "6 \<le> length (password c2)"
    and "email c2 = email c1"
    and "email c1 \<notin> set (map Email (db st))"
    and "GenerateFromPassword e (salt c1) (password c1) = Some h"
    and "\<not> dbCreateFails c1" and "\<not> dbFirstFails c2"
  shows "fst (handleRegister e st c1) =
           \<lparr>reply = Redirect ''/dashboard'', set_cookie = SetCookie (sid (store_Get (store st) c1))\<rparr>
       \<and> db (snd (handleRegister e st c1)) =
           db st @ [\<lparr>ID = next_ID (db st), Email = email c1, Phone = [], Password = h,
                     CreatedAt = now c1\<rparr>]
       \<and> (KeyGenerator c1 \<noteq> [] \<longrightarrow>
           (\<forall>c'. cookie c' = Some (sid (store_Get (store st) c1)) \<and> now c' < now c1 + Expiration \<longrightarrow>
              sess_Get (store_Get (store (snd (handleRegister e st c1))) c') ''userID''
                = Some (VUint (next_ID (db st)))
            \<and> sess_Get (store_Get (store (snd (handleRegister e st c1))) c') ''userEmail''
                = Some (VString (email c1))))
       \<and> handleRegister e (snd (handleRegister e st c1)) c2 =
           (page (renderRegisterPage e ''Email already registered''), snd (handleRegister e st c1))
       \<and> length (db (snd (handleRegister e (snd (handleRegister e st c1)) c2))) = length (db st) + 1"
proof -
  let ?st1 = "snd (handleRegister e st c1)"
  note once = register_once[OF assms(1,2,6,7,8)]
  have d1: "db ?st1 = db st @ [\<lparr>ID = next_ID (db st), Email = email c1, Phone = [], Password = h,
                     CreatedAt = now c1\<rparr>]"
    using once by simp
  have "find (\<lambda>u. Email u = email c2) (db ?st1) \<noteq> None"
    by (simp add: find_Email_None d1 assms(5))
  then have r2: "handleRegister e ?st1 c2 =
           (page (renderRegisterPage e ''Email already registered''), ?st1)"
    using assms(3,4,9)
    by (auto simp: handleRegister_def registerChecks_def db_First_def)
  have len: "length (db (snd (handleRegister e ?st1 c2))) = length (db st) + 1"
    by (simp add: r2) (simp add: d1)
  show ?thesis using once r2 len by blast
qed

theorem register_twice_same_email_witness:
  "fst (handleRegister test_env st_alice (form None ''c@d.org'' ''secret6'' ''secret6'' 10))
     = \<lparr>reply = Redirect ''/dashboard'', set_cookie = SetCookie ''kc@d.org''\<rparr>
   \<and> map Email (db (snd (handleRegister test_env st_alice
                          (form None ''c@d.org'' ''secret6'' ''secret6'' 10))))
     = [''a@b.com'', ''c@d.org'']
   \<and> sess_Get (store_Get
        (store (snd (handleRegister test_env st_alice (form None ''c@d.org'' ''secret6'' ''secret6'' 10))))
        (form (Some ''kc@d.org'') [] [] [] 11)) ''userEmail'' = Some (VString ''c@d.org'')
   \<and> handleRegister test_env
            (snd (handleRegister test_env st_alice (form None ''c@d.org'' ''secret6'' ''secret6'' 10)))
            (form None ''c@d.org'' ''another7'' ''another7'' 20)
     = (page (renderRegisterPage test_env ''Email already registered''),
        snd (handleRegister test_env st_alice (form None ''c@d.org'' ''secret6'' ''secret6'' 10)))
   \<and> length (db (snd (handleRegister test_env
            (snd (handleRegister test_env st_alice (form None ''c@d.org'' ''secret6'' ''secret6'' 10)))
            (form None ''c@d.org'' ''another7'' ''another7'' 20)))) = length (db st_alice) + 1"
proof -
  let ?c1 = "form None ''c@d.org'' ''secret6'' ''secret6'' 10"
  let ?c2 = "form None ''c@d.org'' ''another7'' ''another7'' 20"
  have h: "password ?c1 = confirm_password ?c1" "6 \<le> length (password ?c1)"
          "password ?c2 = confirm_password ?c2" "6 \<le> length (password ?c2)"
          "email ?c2 = email ?c1" "email ?c1 \<notin> set (map Email (db st_alice))"
          "GenerateFromPassword test_env (salt ?c1) (password ?c1) = Some ''s$secret6''"
          "\<not> dbCreateFails ?c1" "\<not> dbFirstFails ?c2"
    by (simp_all add: fixture_defs)
  note T = register_twice_same_email[OF h]
  have k: "sid (store_Get (store st_alice) ?c1) = ''kc@d.org''" "KeyGenerator ?c1 \<noteq> []"
          "next_ID (db st_alice) = 2" "now ?c1 = 10" "email ?c1 = ''c@d.org''"
          "db st_alice = [alice]" "Email alice = ''a@b.com''"
          "cookie (form (Some ''kc@d.org'') [] [] [] 11) = Some ''kc@d.org''"
          "now (form (Some ''kc@d.org'') [] [] [] 11) < 10 + Expiration"
    by (simp_all add: fixture_defs sid_store_Get next_ID_def Expiration_def)
  from T have a: "fst (handleRegister test_env st_alice ?c1)
     = \<lparr>reply = Redirect ''/dashboard'', set_cookie = SetCookie ''kc@d.org''\<rparr>"
    by (simp add: k)
  from T have b: "map Email (db (snd (handleRegister test_env st_alice ?c1))) = [''a@b.com'', ''c@d.org'']"
    by (simp add: k)
  from T have c: "sess_Get (store_Get (store (snd (handleRegister test_env st_alice ?c1)))
        (form (Some ''kc@d.org'') [] [] [] 11)) ''userEmail'' = Some (VString ''c@d.org'')"
    using k by auto
  from T a b c show ?thesis by blast
qed

text \<open>
  The claim without the condition on the hash: a first registration with a matching
  confirmation, a new email and a password of 73 bytes is answered with "Registration
  failed" and stores nothing, and a second registration with that email then succeeds.
\<close>

theorem register_twice_long_password:
  "password (form None ''c@d.org'' (replicate 73 (CHR ''a'')) (replicate 73 (CHR ''a'')) 10)
     = confirm_password (form None ''c@d.org'' (replicate 73 (CHR ''a'')) (replicate 73 (CHR ''a'')) 10)
   \<and> 6 \<le> length (password (form None ''c@d.org'' (replicate 73 (CHR ''a'')) (replicate 73 (CHR ''a'')) 10))
   \<and> ''c@d.org'' \<notin> set (map Email (db st_alice))
   \<and> handleRegister test_env st_alice
        (form None ''c@d.org'' (replicate 73 (CHR ''a'')) (replicate 73 (CHR ''a'')) 10)
     = (page (renderRegisterPage test_env ''Registration failed''), st_alice)
   \<and> reply (fst (handleRegister test_env st_alice
        (form None ''c@d.org'' (replicate 73 (CHR ''a'')) (replicate 73 (CHR ''a'')) 10)))
     \<noteq> Redirect ''/dashboard''
   \<and> reply (fst (handleRegister test_env
        (snd (handleRegister test_env st_alice
           (form None ''c@d.org'' (replicate 73 (CHR ''a'')) (replicate 73 (CHR ''a'')) 10)))
        (form None ''c@d.org'' ''another7'' ''another7'' 20)))
     = Redirect ''/dashboard''"
  by (simp add: fixture_defs handler_defs)

text \<open>
  Claim C4. A valid registration (matching confirmation, password of at least 6 bytes,
  email not stored, the hash and the insert succeed, the session token not empty) is
  answered with the redirect to /dashboard and the session cookie; the table gets one
  row, with the registered email and an identifier no other row has; and a request that
  presents the cookie before the session expires finds a session whose \<^verbatim>\<open>userID\<close>
  is that identifier and whose \<^verbatim>\<open>userEmail\<close> is the registered email. A second valid
  registration with another email succeeds in the same way in the state the first left.
\<close>

theorem register_valid_establishes_session:
  assumes "password c1 = confirm_password c1" and "6 \<le> length (password c1)"
    and "GenerateFromPassword e (salt c1) (password c1) = Some h1"
    and "\<not> dbCreateFails c1" and "KeyGenerator c1 \<noteq> []"
    and "password c2 = confirm_password c2" and "6 \<le> length (password c2)"
    and "GenerateFromPassword e (salt c2) (password c2) = Some h2"
    and "\<not> dbCreateFails c2" and "KeyGenerator c2 \<noteq> []"
    and "email c1 \<notin> set (map Email (db st))" and "email c2 \<notin> set (map Email (db st))"
    and "email c1 \<noteq> email c2"
  shows "let st1 = snd (handleRegister e st c1); st2 = snd (handleRegister e st1 c2);
             k1 = sid (store_Get (store st) c1); k2 = sid (store_Get (store st1) c2);
             id1 = next_ID (db st); id2 = next_ID (db st1) in
           fst (handleRegister e st c1) = \<lparr>reply = Redirect ''/dashboard'', set_cookie = SetCookie k1\<rparr>
         \<and> db st1 = db st @ [\<lparr>ID = id1, Email = email c1, Phone = [], Password = h1, CreatedAt = now c1\<rparr>]
         \<and> id1 \<notin> set (map ID (db st))
         \<and> (\<forall>c'. cookie c' = Some k1 \<and> now c' < now c1 + Expiration \<longrightarrow>
                sess_Get (store_Get (store st1) c') ''userID'' = Some (VUint id1)
              \<and> sess_Get (store_Get (store st1) c') ''userEmail'' = Some (VString (email c1)))
         \<and> fst (handleRegister e st1 c2) = \<lparr>reply = Redirect ''/dashboard'', set_cookie = SetCookie k2\<rparr>
         \<and> db st2 = db st1 @ [\<lparr>ID = id2, Email = email c2, Phone = [], Password = h2, CreatedAt = now c2\<rparr>]
         \<and> id2 \<notin> set (map ID (db st1))
         \<and> (\<forall>c'. cookie c' = Some k2 \<and> now c' < now c2 + Expiration \<longrightarrow>
                sess_Get (store_Get (store st2) c') ''userID'' = Some (VUint id2)
              \<and> sess_Get (store_Get (store st2) c') ''userEmail'' = Some (VString (email c2)))"
proof -
  let ?st1 = "snd (handleRegister e st c1)"
  note one = register_once[OF assms(1,2,11,3,4)]
  have d1: "db ?st1 = db st @ [\<lparr>ID = next_ID (db st), Email = email c1, Phone = [], Password = h1,
                     CreatedAt = now c1\<rparr>]"
    using one by simp
  have "email c2 \<notin> set (map Email (db ?st1))"
    using assms(12,13) by (simp add: d1)
  note two = register_once[OF assms(6,7) this assms(8,9)]
  show ?thesis
    unfolding Let_def using one two assms(5,10) next_ID_fresh[of "db st"] next_ID_fresh[of "db ?st1"]
    by blast
qed

theorem register_valid_establishes_session_witness:
  "fst (handleRegister test_env st_alice (form None ''bob@b.com'' ''secret6'' ''secret6'' 10))
     = \<lparr>reply = Redirect ''/dashboard'', set_cookie = SetCookie ''kbob@b.com''\<rparr>
   \<and> sess_Get (store_Get
        (store (snd (handleRegister test_env st_alice (form None ''bob@b.com'' ''secret6'' ''secret6'' 10))))
        (form (Some ''kbob@b.com'') [] [] [] 11)) ''userEmail'' = Some (VString ''bob@b.com'')
   \<and> sess_Get (store_Get
        (store (snd (handleRegister test_env st_alice (form None ''bob@b.com'' ''secret6'' ''secret6'' 10))))
        (form (Some ''kbob@b.com'') [] [] [] 11)) ''userID'' = Some (VUint 2)
   \<and> fst (handleRegister test_env
        (snd (handleRegister test_env st_alice (form None ''bob@b.com'' ''secret6'' ''secret6'' 10)))
        (form None ''eve@b.com'' ''hunter22'' ''hunter22'' 12))
     = \<lparr>reply = Redirect ''/dashboard'', set_cookie = SetCookie ''keve@b.com''\<rparr>
   \<and> map Email (db (snd (handleRegister test_env
        (snd (handleRegister test_env st_alice (form None ''bob@b.com'' ''secret6'' ''secret6'' 10)))
        (form None ''eve@b.com'' ''hunter22'' ''hunter22'' 12))))
     = [''a@b.com'', ''bob@b.com'', ''eve@b.com'']"
proof -
  let ?c1 = "form None ''bob@b.com'' ''secret6'' ''secret6'' 10"
  let ?c2 = "form None ''eve@b.com'' ''hunter22'' ''hunter22'' 12"
  have T: "let st1 = snd (handleRegister test_env st_alice ?c1) in
           (\<forall>c'. cookie c' = Some (sid (store_Get (store st_alice) ?c1)) \<and> now c' < now ?c1 + Expiration \<longrightarrow>
                sess_Get (store_Get (store st1) c') ''userID'' = Some (VUint (next_ID (db st_alice)))
              \<and> sess_Get (store_Get (store st1) c') ''userEmail'' = Some (VString (email ?c1)))"
    using register_valid_establishes_session[of ?c1 test_env "''s$secret6''" ?c2 "''s$hunter22''" st_alice]
    by (simp add: fixture_defs Let_def)
  show ?thesis
    using T by (simp add: fixture_defs handler_defs)
qed


section \<open>The sessions of a running server\<close>

lemma typed_payload_iff:
  "typed_payload d \<longleftrightarrow> (\<exists>n. d ''userID'' = Some (VUint n)) \<and> (\<exists>em. d ''userEmail'' = Some (VString em))"
  by (auto simp: typed_payload_def split: option.splits any.splits)

lemma store_inv_empty: "store_inv Map.empty"
  by (simp add: store_inv_def)

lemma boot_store: "store (boot e slt t countFails createFails tbl) = Map.empty"
  by (simp add: boot_def)

lemma store_inv_Set: "store_inv stg \<Longrightarrow> typed_payload d \<Longrightarrow> store_inv (storage_Set stg t k d)"
  by (auto simp: store_inv_def storage_Set_def Expiration_def)

lemma store_inv_Delete: "store_inv stg \<Longrightarrow> store_inv (storage_Delete stg k)"
  by (auto simp: store_inv_def storage_Delete_def)

lemma store_inv_establish: "store_inv (store st) \<Longrightarrow> store_inv (store (snd (establish st c u)))"
  by (simp add: establish_store store_inv_Set typed_payload_def)

lemma store_inv_login: "store_inv (store st) \<Longrightarrow> store_inv (store (snd (handleLogin e st c)))"
  by (simp add: handleLogin_def store_inv_establish split: sum.splits)

lemma store_inv_registerWrite:
  "store_inv (store st) \<Longrightarrow> store_inv (store (snd (registerWrite e st c)))"
  by (simp add: registerWrite_def store_inv_establish split: option.splits sum.splits prod.splits)

lemma store_inv_register: "store_inv (store st) \<Longrightarrow> store_inv (store (snd (handleRegister e st c)))"
  by (simp add: handleRegister_def store_inv_registerWrite split: option.splits)

lemma store_inv_logout: "store_inv (store st) \<Longrightarrow> store_inv (store (snd (handleLogout st c)))"
  by (simp add: handleLogout_def sess_Destroy_def store_inv_Delete)

lemma dashboardRoute_state: "snd (dashboardRoute e st st c) = st"
  by (simp add: dashboardRoute_def handleDashboard_def Let_def split: option.splits any.splits)

lemma store_inv_dispatch:
  "store_inv (store st) \<Longrightarrow> store_inv (store (snd (dispatch e st rq)))"
proof (cases rq)
  case (Pair r c)
  assume "store_inv (store st)"
  then show ?thesis
    unfolding Pair
    by (cases r)
       (simp_all add: handleIndex_def handleLoginPage_def handleRegisterPage_def
          store_inv_login store_inv_register store_inv_logout dashboardRoute_state)
qed

lemma store_inv_run: "store_inv (store st) \<Longrightarrow> store_inv (store (run e st rqs))"
  by (induction rqs arbitrary: st) (simp_all add: store_inv_dispatch)

lemma store_Get_cases:
  assumes "store_inv stg"
  shows "sdata (store_Get stg c) = Map.empty \<or> typed_payload (sdata (store_Get stg c))"
  using assms
  by (auto simp: store_Get_def store_inv_def storage_Get_def Let_def split: option.splits if_splits)

section \<open>The guard\<close>

lemma guard_redirects:
  "storage_Get (store st) (now c) (case cookie c of None \<Rightarrow> [] | Some v \<Rightarrow> v) = None \<Longrightarrow>
   dashboardRoute e st st' c = (redirect ''/login'', st)"
  by (simp add: dashboardRoute_def authRequired_def store_Get_def sess_Get_def Let_def)

lemma renderDashboard_shows: "sublist em (renderDashboard e em)"
  by (simp add: renderDashboard_def sublist_append_leftI)

text \<open>
  In every state the server reaches from an empty session store, a request to the
  dashboard is redirected to /login when it has no cookie, when its token is not in the
  store and when the session of its token has expired at the guard's read. When the
  session is stored and has not expired at the guard's read nor at the handler's read,
  the response is the dashboard page with the email of the session.
\<close>

lemma dashboard_cases:
  assumes "store st0 = Map.empty"
  shows "(cookie c = None \<longrightarrow>
            dashboardRoute e (run e st0 rqs) st' c = (redirect ''/login'', run e st0 rqs))
       \<and> (\<forall>k. cookie c = Some k \<and> store (run e st0 rqs) k = None \<longrightarrow>
            dashboardRoute e (run e st0 rqs) st' c = (redirect ''/login'', run e st0 rqs))
       \<and> (\<forall>k d ex. cookie c = Some k \<and> store (run e st0 rqs) k = Some (d, ex) \<and> ex \<le> now c \<longrightarrow>
            dashboardRoute e (run e st0 rqs) st' c = (redirect ''/login'', run e st0 rqs))
       \<and> (\<forall>k d ex. cookie c = Some k \<and> store (run e st0 rqs) k = Some (d, ex)
              \<and> now c < ex \<and> later c < ex \<longrightarrow>
            (\<exists>em. d ''userEmail'' = Some (VString em)
                \<and> dashboardRoute e (run e st0 rqs) (run e st0 rqs) c
                    = (page (renderDashboard e em), run e st0 rqs)
                \<and> sublist em (renderDashboard e em)))"
proof -
  let ?st = "run e st0 rqs"
  have inv: "store_inv (store ?st)"
    using assms by (simp add: store_inv_run store_inv_empty)
  have a: "dashboardRoute e ?st st' c = (redirect ''/login'', ?st)" if "cookie c = None"
    using that by (simp add: guard_redirects storage_Get_def)
  have b: "dashboardRoute e ?st st' c = (redirect ''/login'', ?st)"
    if "cookie c = Some k" "store ?st k = None" for k
    using that by (simp add: guard_redirects storage_Get_def)
  have c: "dashboardRoute e ?st st' c = (redirect ''/login'', ?st)"
    if "cookie c = Some k" "store ?st k = Some (d, ex)" "ex \<le> now c" for k d ex
  proof -
    have "0 < ex" using inv that(2) by (auto simp: store_inv_def)
    then show ?thesis using that by (simp add: guard_redirects storage_Get_def)
  qed
  have d: "\<exists>em. d ''userEmail'' = Some (VString em)
                \<and> dashboardRoute e ?st ?st c = (page (renderDashboard e em), ?st)
                \<and> sublist em (renderDashboard e em)"
    if "cookie c = Some k" "store ?st k = Some (d, ex)" "now c < ex" "later c < ex" for k d ex
  proof -
    have k: "k \<noteq> []" using inv that(2) by (auto simp: store_inv_def)
    have "typed_payload d" using inv that(2) by (auto simp: store_inv_def)
    then obtain n em where n: "d ''userID'' = Some (VUint n)" and em: "d ''userEmail'' = Some (VString em)"
      by (auto simp: typed_payload_iff)
    have "store_Get (store ?st) c = \<lparr>sid = k, sdata = d\<rparr>"
         "store_Get (store ?st) (c\<lparr>now := later c\<rparr>) = \<lparr>sid = k, sdata = d\<rparr>"
      using that k by (simp_all add: store_Get_def storage_Get_def)
    then have "dashboardRoute e ?st ?st c = (page (renderDashboard e em), ?st)"
      using n em by (simp add: dashboardRoute_def authRequired_def handleDashboard_def sess_Get_def)
    with em show ?thesis by (auto simp: renderDashboard_shows)
  qed
  show ?thesis using a b c d by blast
qed

text \<open>
  Claim C3. A session that login created at time 5 expires at 86405. A request to the
  dashboard with its token whose guard reads the store at 86404 is let through: the
  token resolves to a live session. When the handler's read of the store (line 178)
  comes at 86405, the session it gets is a new, empty one, and the type assertion of
  line 179 panics: the response is neither the dashboard with the email nor a redirect.
  With both reads at 86404 the dashboard is rendered with the email.
\<close>

theorem dashboard_live_session_expiring:
  "store st_login ''ka@b.com''
     = Some ([''userID'' \<mapsto> VUint 1, ''userEmail'' \<mapsto> VString ''a@b.com''], 86405)
   \<and> authRequired st_login ((form (Some ''ka@b.com'') [] [] [] 86404)\<lparr>later := 86405\<rparr>) = None
   \<and> dashboardRoute test_env st_login st_login
        ((form (Some ''ka@b.com'') [] [] [] 86404)\<lparr>later := 86405\<rparr>)
     = (\<lparr>reply = Panic, set_cookie = NoCookie\<rparr>, st_login)
   \<and> dashboardRoute test_env st_login st_login (form (Some ''ka@b.com'') [] [] [] 86404)
     = (page (renderDashboard test_env ''a@b.com''), st_login)"
  by (simp add: fixture_defs handler_defs)

text \<open>
  Claim C9. Every session the program stores has \<^verbatim>\<open>userID\<close> and \<^verbatim>\<open>userEmail\<close>, and
  the guard admits the request of a logged-in user: its session has a \<^verbatim>\<open>userID\<close>.
  The handler does not read that session, it calls \<^verbatim>\<open>store.Get\<close> again (line 178).
  When a logout with the same token is served between the two reads, or the session
  expires between them, the handler gets a new session with an empty payload, and the
  type assertion \<^verbatim>\<open>sess.Get("userEmail").(string)\<close> of line 179 fails: a panic.
\<close>

theorem dashboard_assertion_fails:
  "sess_Get (store_Get (store st_login) (form (Some ''ka@b.com'') [] [] [] 7)) ''userID''
     = Some (VUint 1)
   \<and> sess_Get (store_Get (store st_login) (form (Some ''ka@b.com'') [] [] [] 7)) ''userEmail''
     = Some (VString ''a@b.com'')
   \<and> authRequired st_login (form (Some ''ka@b.com'') [] [] [] 7) = None
   \<and> reply (fst (dashboardRoute test_env st_login
                    (snd (handleLogout st_login (form (Some ''ka@b.com'') [] [] [] 7)))
                    (form (Some ''ka@b.com'') [] [] [] 7))) = Panic
   \<and> authRequired st_login (form (Some ''ka@b.com'') [] [] [] 86404) = None
   \<and> reply (fst (handleDashboard test_env st_login (form (Some ''ka@b.com'') [] [] [] 86405)))
     = Panic"
  by (simp add: fixture_defs handler_defs)

section \<open>Logout\<close>









section \<open>Bootstrap\<close>

text \<open>
  Claim C10. With the store answering, \<^verbatim>\<open>seedDemoUser\<close> turns an empty table into
  the table of one row, the demo account (email demo@glassauth.io, the hash bcrypt gave
  for the password demo2024, the first identifier), and leaves a table that has any row
  as it is: one row is added if and only if the table was empty.
\<close>

theorem seed_demo_user:
  assumes "GenerateFromPassword e slt ''demo2024'' = Some h"
  shows "seedDemoUser e slt t False False tbl =
           (if tbl = []
            then [\<lparr>ID = 1, Email = ''demo@glassauth.io'', Phone = ''+1 (555) 987-6543'',
                   Password = h, CreatedAt = t\<rparr>]
            else tbl)
       \<and> (length (seedDemoUser e slt t False False tbl) = length tbl + 1 \<longleftrightarrow> tbl = [])"
  using assms
  by (cases tbl)
     (simp_all add: seedDemoUser_def db_Count_def db_Create_def demoUser_def next_ID_def Let_def)

theorem seed_demo_user_witness:
  "seedDemoUser test_env ''s'' 3 False False [] =
      [\<lparr>ID = 1, Email = ''demo@glassauth.io'', Phone = ''+1 (555) 987-6543'',
        Password = ''s$demo2024'', CreatedAt = 3\<rparr>]
   \<and> seedDemoUser test_env ''s'' 3 False False [alice] = [alice]"
proof -
  have h: "GenerateFromPassword test_env ''s'' ''demo2024'' = Some ''s$demo2024''"
    by (simp add: test_env_def)
  show ?thesis
    using seed_demo_user[OF h, of 3 "[]"] seed_demo_user[OF h, of 3 "[alice]"] by simp
qed

section \<open>Registration: a duplicate found by the insert\<close>

text \<open>When the lookup answers and finds the email, the duplicate is reported as such.\<close>

lemma register_duplicate_at_lookup:
  assumes "password c = confirm_password c" and "6 \<le> length (password c)"
    and "email c \<in> set (map Email (db st))" and "\<not> dbFirstFails c"
  shows "handleRegister e st c = (page (renderRegisterPage e ''Email already registered''), st)"
proof -
  have "find (\<lambda>u. Email u = email c) (db st) \<noteq> None"
    using assms(3) by (simp add: find_Email_None)
  then show ?thesis
    using assms(1,2,4) by (auto simp: handleRegister_def registerChecks_def db_First_def)
qed

text \<open>
  Claim C8. The lookup of line 148 and the insert of line 164 are two calls to the
  store. Two requests register the same new email. The first request runs its checks
  (\<open>registerChecks\<close>) while the email is not stored, so none of them returns; the second
  request is then served in full and stores the email; the first request goes on to its
  insert (\<open>registerWrite\<close>), which now violates the unique index. Its response is the
  register page with "Registration failed": the response of a request whose insert
  fails because the store is unavailable, and not the page with "Email already
  registered". A lookup that fails on a stored email leads to the same response.
\<close>

theorem register_duplicate_at_write_time:
  "registerChecks test_env st_alice (form None ''c@d.org'' ''secret6'' ''secret6'' 10) = None
   \<and> reply (fst (handleRegister test_env st_alice (form None ''c@d.org'' ''another7'' ''another7'' 10)))
       = Redirect ''/dashboard''
   \<and> ''c@d.org'' \<in> set (map Email (db (snd (handleRegister test_env st_alice
                                   (form None ''c@d.org'' ''another7'' ''another7'' 10)))))
   \<and> fst (registerWrite test_env
             (snd (handleRegister test_env st_alice (form None ''c@d.org'' ''another7'' ''another7'' 10)))
             (form None ''c@d.org'' ''secret6'' ''secret6'' 10))
       = page (renderRegisterPage test_env ''Registration failed'')
   \<and> fst (handleRegister test_env st_alice
             ((form None ''e@f.org'' ''secret6'' ''secret6'' 10)\<lparr>dbCreateFails := True\<rparr>))
       = page (renderRegisterPage test_env ''Registration failed'')
   \<and> fst (handleRegister test_env st_alice
             ((form None ''a@b.com'' ''secret6'' ''secret6'' 10)\<lparr>dbFirstFails := True\<rparr>))
       = page (renderRegisterPage test_env ''Registration failed'')
   \<and> page (renderRegisterPage test_env ''Registration failed'')
       \<noteq> page (renderRegisterPage test_env ''Email already registered'')"
  by (simp add: fixture_defs handler_defs renderRegisterPage_def errorDiv_def)

end
